theory Spec2Isabelle
  imports Main
begin

section \<open>JavaScript values\<close>

text \<open>
  The values the chat client receives in event payloads and keeps in its globals.
  Strings are sequences of code units (here 8-bit ones); numbers are the integers,
  which is what stream ids and viewer counts are (fractions, NaN and the exponent
  notation of numbers from \<open>10\<^sup>2\<^sup>1\<close> on are outside the model).
\<close>

datatype jsval = JUndefined | JNull | JBool bool | JNum int | JStr string

datatype js_error = TypeError

text \<open>
  A call either returns or throws; in both cases the globals and the document are left
  in some state.
\<close>

datatype 's outcome = Returns 's | Throws js_error 's

text \<open>ToBoolean, as used by \<^verbatim>\<open>if (x)\<close>, \<^verbatim>\<open>!x\<close> and \<^verbatim>\<open>x || y\<close>.\<close>

fun truthy :: "jsval \<Rightarrow> bool" where
  "truthy JUndefined = False"
| "truthy JNull = False"
| "truthy (JBool b) = b"
| "truthy (JNum n) = (n \<noteq> 0)"
| "truthy (JStr s) = (s \<noteq> [])"

definition js_or :: "jsval \<Rightarrow> jsval \<Rightarrow> jsval" where
  "js_or a b = (if truthy a then a else b)"

fun digits :: "nat \<Rightarrow> string" where
  "digits n = (if n < 10 then [char_of (48 + n)]
               else digits (n div 10) @ [char_of (48 + n mod 10)])"

declare digits.simps [simp del]

text \<open>ToString, as applied by a template literal and by the \<^verbatim>\<open>textContent\<close> setter.\<close>

fun to_string :: "jsval \<Rightarrow> string" where
  "to_string JUndefined = ''undefined''"
| "to_string JNull = ''null''"
| "to_string (JBool b) = (if b then ''true'' else ''false'')"
| "to_string (JNum n) = (if n < 0 then CHR ''-'' # digits (nat (- n)) else digits (nat n))"
| "to_string (JStr s) = s"

text \<open>
  \<^verbatim>\<open>String.prototype.trim\<close> strips white space and line terminators from both ends:
  TAB, LF, VT, FF, CR, SP and NBSP among the 8-bit code units.
\<close>

definition is_white_space :: "char \<Rightarrow> bool" where
  "is_white_space c =
     (c \<in> set [CHR 0x09, CHR 0x0A, CHR 0x0B, CHR 0x0C, CHR 0x0D, CHR 0x20, CHR 0xA0])"

definition trim :: "string \<Rightarrow> string" where
  "trim s = rev (dropWhile is_white_space (rev (dropWhile is_white_space s)))"

section \<open>The document\<close>

text \<open>
  The text of a node as markup (\<^verbatim>\<open>div.textContent = text; return div.innerHTML\<close>): the
  serialisation of a text node replaces \<^verbatim>\<open>&\<close>, NBSP, \<^verbatim>\<open><\<close> and \<^verbatim>\<open>>\<close> by their
  character references and keeps every other code unit.
\<close>

fun escape_char :: "char \<Rightarrow> string" where
  "escape_char c =
     (if c = CHR ''&'' then ''&amp;''
      else if c = CHR 0xA0 then ''&nbsp;''
      else if c = CHR ''<'' then ''&lt;''
      else if c = CHR ''>'' then ''&gt;''
      else [c])"

definition escapeHtml :: "string \<Rightarrow> string" where
  "escapeHtml text = concat (map escape_char text)"

text \<open>
  A child of \<^verbatim>\<open>#chatMessages\<close> is a \<^verbatim>\<open>div.chat-message\<close> built by \<^verbatim>\<open>addChatMessage\<close>
  or a \<^verbatim>\<open>div.system-message\<close> built by \<^verbatim>\<open>addSystemMessage\<close>. The record of a chat
  message holds what the template interpolates (the three classes chosen by \<^verbatim>\<open>isBot\<close>,
  the user name, the clock time, the markup of the \<^verbatim>\<open>p\<close>), the \<^verbatim>\<open>data-\<close> attributes and
  whether \<^verbatim>\<open>text-muted\<close> is in its class list. The user name goes into the markup as
  the string the template received, so the parser may build elements from it:
  \<open>descendant_messages\<close> is the number of elements of class \<^verbatim>\<open>chat-message\<close> below the
  \<^verbatim>\<open>div\<close>, which \<^verbatim>\<open>querySelectorAll('.chat-message')\<close> selects along with the \<^verbatim>\<open>div\<close> itself.
\<close>

record chat_message =
  text_muted :: bool
  data_timestamp :: string
  data_message_id :: "string option"
  avatarClass :: string
  nameClass :: string
  iconClass :: string
  username_html :: string
  time_html :: string
  p_innerHTML :: string
  descendant_messages :: nat

datatype node = ChatMessage chat_message | SystemMessage string

fun is_chat_message :: "node \<Rightarrow> bool" where
  "is_chat_message (ChatMessage m) = True"
| "is_chat_message (SystemMessage t) = False"

text \<open>
  How many elements of the selection \<^verbatim>\<open>.chat-message\<close> a child of the container holds:
  the \<^verbatim>\<open>div\<close> of a chat message and what its markup brought in; none for a system
  message, whose only interpolation is escaped text.
\<close>

fun selected :: "node \<Rightarrow> nat" where
  "selected (ChatMessage m) = Suc (descendant_messages m)"
| "selected (SystemMessage t) = 0"

text \<open>
  What the script takes from the browser and is not in the source: the formatting of
  the clock time, \<^verbatim>\<open>new Date(timestamp).toLocaleTimeString('en-US', ...)\<close>, which depends on
  the time zone, and the HTML parser. Of the parser the script uses one number: how many
  elements of class \<^verbatim>\<open>chat-message\<close> it builds inside the message \<^verbatim>\<open>div\<close> from the template
  of \<^verbatim>\<open>addChatMessage\<close>, given \<^verbatim>\<open>isBot\<close> and the three strings interpolated there (user
  name, clock time, escaped message).
\<close>

record browser =
  toLocaleTimeString :: "string \<Rightarrow> string"
  chat_message_elements :: "bool \<Rightarrow> string \<Rightarrow> string \<Rightarrow> string \<Rightarrow> nat"

datatype placeholder_markup =
    Initial
  | Placeholder string
  | Status string string string

record placeholder =
  ph_innerHTML :: placeholder_markup
  ph_display :: string

record alert =
  alert_type :: string
  alert_message :: string

text \<open>
  The elements the chat script looks up by id (\<open>None\<close> when the page has no such element)
  and the alerts appended to the body.
\<close>

record dom =
  chatInput :: "string option"
  chatMessages :: "node list option"
  chatUserCount :: "string option"
  chatPlaceholder :: "placeholder option"
  alerts :: "alert list"

section \<open>The chat client\<close>

type_synonym emit = "string \<times> (string \<times> jsval) list"

text \<open>
  The globals of the chat script. \<open>socket\<close> is \<open>None\<close> while the variable is undefined
  and otherwise holds what has been emitted on the socket, oldest first.
\<close>

record chat =
  socket :: "emit list option"
  isConnectedToChat :: bool
  currentStreamId :: jsval
  doc :: dom

text \<open>
  \<^verbatim>\<open>showAlert\<close> appends an alert to the body; the record keeps the two strings that its
  class and its markup are built from. The timer that takes the alert away after five
  seconds is outside the model.
\<close>

definition showAlert :: "string \<Rightarrow> string \<Rightarrow> chat \<Rightarrow> chat" where
  "showAlert type message s =
     s\<lparr>doc := (doc s)\<lparr>alerts := alerts (doc s) @
        [\<lparr>alert_type = type, alert_message = message\<rparr>]\<rparr>\<rparr>"

definition sendChatMessage :: "chat \<Rightarrow> chat outcome" where
  "sendChatMessage s =
     (case chatInput (doc s) of
        None \<Rightarrow> Throws TypeError s
      | Some v \<Rightarrow>
          let message = trim v in
          if message = [] then Returns s
          else if \<not> isConnectedToChat s then
            Returns (showAlert ''warning'' ''Not connected to chat. Please refresh the page.'' s)
          else if length message > 500 then
            Returns (showAlert ''warning'' ''Message too long (max 500 characters)'' s)
          else
            (case socket s of
               None \<Rightarrow> Throws TypeError s
             | Some sent \<Rightarrow>
                 Returns (s\<lparr>socket := Some (sent @
                    [(''send_message'',
                      [(''stream_id'', currentStreamId s), (''message'', JStr message)])]),
                    doc := (doc s)\<lparr>chatInput := Some []\<rparr>\<rparr>)))"

text \<open>The events of a given name emitted so far.\<close>

definition emitted :: "string \<Rightarrow> chat \<Rightarrow> emit list" where
  "emitted name s =
     (case socket s of None \<Rightarrow> [] | Some sent \<Rightarrow> filter (\<lambda>e. fst e = name) sent)"

fun state_of :: "'s outcome \<Rightarrow> 's" where
  "state_of (Returns s) = s"
| "state_of (Throws e s) = s"

definition hideChatPlaceholder :: "chat \<Rightarrow> chat" where
  "hideChatPlaceholder s =
     (case chatPlaceholder (doc s) of
        None \<Rightarrow> s
      | Some p \<Rightarrow> s\<lparr>doc := (doc s)\<lparr>chatPlaceholder := Some (p\<lparr>ph_display := ''none''\<rparr>)\<rparr>\<rparr>)"

definition showChatPlaceholder :: "string \<Rightarrow> chat \<Rightarrow> chat" where
  "showChatPlaceholder message s =
     (case chatPlaceholder (doc s) of
        None \<Rightarrow> s
      | Some p \<Rightarrow> s\<lparr>doc := (doc s)\<lparr>chatPlaceholder :=
          Some (p\<lparr>ph_innerHTML := Placeholder message, ph_display := ''block''\<rparr>)\<rparr>\<rparr>)"

text \<open>\<^verbatim>\<open>messages[0].remove()\<close>: the first node of the selection leaves its parent.\<close>

fun remove_first :: "('a \<Rightarrow> bool) \<Rightarrow> 'a list \<Rightarrow> 'a list" where
  "remove_first P [] = []"
| "remove_first P (x # xs) = (if P x then xs else x # remove_first P xs)"

text \<open>
  The element that \<^verbatim>\<open>addChatMessage\<close> builds. Scrolling to the bottom changes no node and
  is left out.
\<close>

definition messageDiv :: "browser \<Rightarrow> string \<Rightarrow> string \<Rightarrow> string \<Rightarrow> bool \<Rightarrow> node" where
  "messageDiv b username message timestamp isBot =
     (let time = toLocaleTimeString b timestamp in
      ChatMessage \<lparr>text_muted = False,
        data_timestamp = timestamp,
        data_message_id = None,
        avatarClass = (if isBot then ''bg-success'' else ''bg-primary''),
        nameClass = (if isBot then ''text-success'' else ''text-primary''),
        iconClass = (if isBot then ''fas fa-robot'' else ''fas fa-user''),
        username_html = username,
        time_html = time,
        p_innerHTML = escapeHtml message,
        descendant_messages = chat_message_elements b isBot username time (escapeHtml message)\<rparr>)"

text \<open>
  \<^verbatim>\<open>messagesContainer.querySelectorAll('.chat-message')\<close> selects every element of that
  class below the container, so its length is the sum over the children; its first
  element is the first chat message among the children, the parent coming before its
  descendants in document order.
\<close>

definition addChatMessage ::
  "browser \<Rightarrow> string \<Rightarrow> string \<Rightarrow> string \<Rightarrow> bool \<Rightarrow> chat \<Rightarrow> chat" where
  "addChatMessage b username message timestamp isBot s =
     (case chatMessages (doc s) of
        None \<Rightarrow> s
      | Some old \<Rightarrow>
          let s1 = hideChatPlaceholder s;
              children = old @ [messageDiv b username message timestamp isBot];
              messages_length = sum_list (map selected children)
          in s1\<lparr>doc := (doc s1)\<lparr>chatMessages :=
               Some (if messages_length > 100 then remove_first is_chat_message children
                     else children)\<rparr>\<rparr>)"

definition addSystemMessage :: "string \<Rightarrow> chat \<Rightarrow> chat" where
  "addSystemMessage message s =
     (case chatMessages (doc s) of
        None \<Rightarrow> s
      | Some old \<Rightarrow>
          s\<lparr>doc := (doc s)\<lparr>chatMessages := Some (old @ [SystemMessage (escapeHtml message)])\<rparr>\<rparr>)"

text \<open>
  \<^verbatim>\<open>element.dataset.messageId\<close>: undefined when the attribute is absent. \<open>removeMessage\<close>
  is modelled on the children of the container, where the \<^verbatim>\<open>p\<close> of the template is the
  first \<^verbatim>\<open>p\<close> of the element; the elements that the markup of a user name brought in
  are not visited, so the statements about \<open>removeMessage\<close> below are made for containers
  without such elements or do not depend on them.
\<close>

definition dataset_messageId :: "chat_message \<Rightarrow> jsval" where
  "dataset_messageId m = (case data_message_id m of None \<Rightarrow> JUndefined | Some i \<Rightarrow> JStr i)"

fun redact :: "jsval \<Rightarrow> node \<Rightarrow> node" where
  "redact messageId (ChatMessage m) =
     (if dataset_messageId m = messageId
      then ChatMessage (m\<lparr>text_muted := True, p_innerHTML := ''<em>[Message deleted]</em>''\<rparr>)
      else ChatMessage m)"
| "redact messageId (SystemMessage t) = SystemMessage t"

definition removeMessage :: "jsval \<Rightarrow> chat \<Rightarrow> chat" where
  "removeMessage messageId s =
     (case chatMessages (doc s) of
        None \<Rightarrow> s
      | Some children \<Rightarrow>
          s\<lparr>doc := (doc s)\<lparr>chatMessages := Some (map (redact messageId) children)\<rparr>\<rparr>)"

definition updateChatUserCount :: "jsval \<Rightarrow> chat \<Rightarrow> chat" where
  "updateChatUserCount count s =
     (case chatUserCount (doc s) of
        None \<Rightarrow> s
      | Some t \<Rightarrow> s\<lparr>doc := (doc s)\<lparr>chatUserCount := Some (to_string count)\<rparr>\<rparr>)"

subsection \<open>The handlers of the server's events\<close>

text \<open>
  The payloads as the interface types them: user name, message, time stamp and reason are
  strings, \<open>msg_is_bot\<close> is the truth value of \<^verbatim>\<open>is_bot\<close> (an absent field takes the
  default \<^verbatim>\<open>false\<close> of the parameter). The viewer count and the message id stay \<open>jsval\<close>,
  since the handlers test them with \<^verbatim>\<open>||\<close> and \<^verbatim>\<open>===\<close>; \<open>None\<close> is a payload without a
  \<^verbatim>\<open>messages\<close> array.
\<close>

record message_payload =
  msg_username :: string
  msg_message :: string
  msg_timestamp :: string
  msg_is_bot :: bool

record presence_payload =
  p_username :: string
  p_user_count :: jsval

definition on_join_success :: "jsval \<Rightarrow> chat \<Rightarrow> chat" where
  "on_join_success user_count s =
     hideChatPlaceholder
       (updateChatUserCount (js_or user_count (JNum 0)) (s\<lparr>isConnectedToChat := True\<rparr>))"

text \<open>\<^verbatim>\<open>data.messages.forEach\<close> visits the array from index 0 upwards.\<close>

definition on_chat_history ::
  "browser \<Rightarrow> message_payload list option \<Rightarrow> chat \<Rightarrow> chat" where
  "on_chat_history b messages s =
     (case messages of
        None \<Rightarrow> showChatPlaceholder ''No messages yet. Start the conversation!'' s
      | Some ms \<Rightarrow>
          if length ms > 0 then
            fold (\<lambda>m. addChatMessage b
                    (msg_username m) (msg_message m) (msg_timestamp m) (msg_is_bot m))
              ms (hideChatPlaceholder s)
          else showChatPlaceholder ''No messages yet. Start the conversation!'' s)"

definition on_new_message :: "browser \<Rightarrow> message_payload \<Rightarrow> chat \<Rightarrow> chat" where
  "on_new_message b m s =
     hideChatPlaceholder
       (addChatMessage b
          (msg_username m) (msg_message m) (msg_timestamp m) (msg_is_bot m) s)"

definition on_user_joined :: "presence_payload \<Rightarrow> chat \<Rightarrow> chat" where
  "on_user_joined data s =
     addSystemMessage (p_username data @ '' joined the chat'')
       (updateChatUserCount (js_or (p_user_count data) (JNum 0)) s)"

definition on_user_left :: "presence_payload \<Rightarrow> chat \<Rightarrow> chat" where
  "on_user_left data s =
     addSystemMessage (p_username data @ '' left the chat'')
       (updateChatUserCount (js_or (p_user_count data) (JNum 0)) s)"

definition on_message_blocked :: "string \<Rightarrow> chat \<Rightarrow> chat" where
  "on_message_blocked reason s = showAlert ''warning'' (''Message blocked: '' @ reason) s"

definition on_message_deleted :: "jsval \<Rightarrow> chat \<Rightarrow> chat" where
  "on_message_deleted message_id s = removeMessage message_id s"

section \<open>The stream page\<close>

text \<open>
  The globals of the stream script that the room functions use, and
  \<^verbatim>\<open>window.sessionUsername\<close>. The socket is \<open>None\<close> while the variable is null.
\<close>

record stream_page =
  page_socket :: "emit list option"
  page_currentStreamId :: jsval
  sessionUsername :: jsval

text \<open>The suffix drawn from \<^verbatim>\<open>Math.random()\<close> is a parameter.\<close>

definition joinStreamRoom :: "jsval \<Rightarrow> string \<Rightarrow> stream_page \<Rightarrow> stream_page outcome" where
  "joinStreamRoom streamId random s =
     (let s1 = s\<lparr>page_currentStreamId := streamId\<rparr>;
          username = js_or (sessionUsername s1) (JStr (''Anonymous_'' @ random))
      in case page_socket s1 of
           None \<Rightarrow> Throws TypeError s1
         | Some sent \<Rightarrow>
             Returns (s1\<lparr>page_socket := Some (sent @
               [(''join_stream'', [(''stream_id'', streamId), (''username'', username)])])\<rparr>))"

definition leaveStreamRoom :: "stream_page \<Rightarrow> stream_page outcome" where
  "leaveStreamRoom s =
     (if truthy (page_currentStreamId s) then
        let username = js_or (sessionUsername s) (JStr ''Anonymous'')
        in case page_socket s of
             None \<Rightarrow> Throws TypeError s
           | Some sent \<Rightarrow>
               Returns (s\<lparr>page_socket := Some (sent @
                 [(''leave_stream'',
                   [(''stream_id'', page_currentStreamId s), (''username'', username)])]),
                 page_currentStreamId := JNull\<rparr>)
      else Returns s)"

text \<open>Calling \<^verbatim>\<open>leaveStreamRoom\<close> n times in a row; a throw ends the run.\<close>

fun leave_times :: "nat \<Rightarrow> stream_page \<Rightarrow> stream_page outcome" where
  "leave_times 0 s = Returns s"
| "leave_times (Suc n) s =
     (case leaveStreamRoom s of
        Returns s' \<Rightarrow> leave_times n s'
      | Throws e s' \<Rightarrow> Throws e s')"

definition leave_events :: "stream_page \<Rightarrow> emit list" where
  "leave_events s =
     (case page_socket s of
        None \<Rightarrow> []
      | Some sent \<Rightarrow> filter (\<lambda>e. fst e = ''leave_stream'') sent)"

text \<open>The chat messages of the container, in document order.\<close>

definition chat_messages :: "chat \<Rightarrow> node list" where
  "chat_messages s =
     (case chatMessages (doc s) of None \<Rightarrow> [] | Some children \<Rightarrow> filter is_chat_message children)"

text \<open>What a payload entry becomes in the container, and a run of \<^verbatim>\<open>addChatMessage\<close> calls.\<close>

definition render :: "browser \<Rightarrow> message_payload \<Rightarrow> node" where
  "render b m =
     messageDiv b (msg_username m) (msg_message m) (msg_timestamp m) (msg_is_bot m)"

definition addChatMessages :: "browser \<Rightarrow> message_payload list \<Rightarrow> chat \<Rightarrow> chat" where
  "addChatMessages b ms s =
     fold (\<lambda>m. addChatMessage b
             (msg_username m) (msg_message m) (msg_timestamp m) (msg_is_bot m)) ms s"


section \<open>Pages used as examples\<close>

definition connected_page :: chat where
  "connected_page =
     \<lparr>socket = Some [], isConnectedToChat = True, currentStreamId = JNum 7,
      doc = \<lparr>chatInput = Some [], chatMessages = Some [], chatUserCount = Some ''0'',
             chatPlaceholder = Some \<lparr>ph_innerHTML = Initial, ph_display = ''block''\<rparr>,
             alerts = []\<rparr>\<rparr>"

text \<open>The user types into the input field.\<close>

definition typed :: "string \<Rightarrow> chat \<Rightarrow> chat" where
  "typed v s = s\<lparr>doc := (doc s)\<lparr>chatInput := Some v\<rparr>\<rparr>"

definition disconnected_page :: chat where
  "disconnected_page = connected_page\<lparr>isConnectedToChat := False\<rparr>"

text \<open>
  A browser for the examples. Its clock reads hours and minutes off an ISO time stamp.
  Its count of parsed elements is right on the user names of the examples, which are
  plain text, markup without any \<^verbatim>\<open>div\<close>, or blocks \<^verbatim>\<open><div class=chat-message>x</div>\<close>.
\<close>

definition clock :: "string \<Rightarrow> string" where
  "clock timestamp = take 5 (drop 11 timestamp)"

fun occurrences :: "string \<Rightarrow> string \<Rightarrow> nat" where
  "occurrences pat [] = 0"
| "occurrences pat (c # cs) =
     (if take (length pat) (c # cs) = pat then 1 else 0) + occurrences pat cs"

definition example_browser :: browser where
  "example_browser =
     \<lparr>toLocaleTimeString = clock,
      chat_message_elements =
        (\<lambda>isBot username time body. occurrences ''<div class=chat-message>'' username)\<rparr>"

definition nested_payload :: message_payload where
  "nested_payload =
     \<lparr>msg_username = ''<div class=chat-message>x</div>'', msg_message = ''hello'',
      msg_timestamp = ''2024-05-01T12:30:00Z'', msg_is_bot = False\<rparr>"

definition hello_payload :: message_payload where
  "hello_payload =
     \<lparr>msg_username = ''alice'', msg_message = ''hello'',
      msg_timestamp = ''2024-05-01T12:30:00Z'', msg_is_bot = False\<rparr>"

definition numbered :: "nat \<Rightarrow> message_payload" where
  "numbered i =
     \<lparr>msg_username = ''alice'', msg_message = digits i,
      msg_timestamp = ''2024-05-01T12:30:00Z'', msg_is_bot = False\<rparr>"

definition stream_page0 :: stream_page where
  "stream_page0 =
     \<lparr>page_socket = Some [], page_currentStreamId = JNull, sessionUsername = JStr ''bob''\<rparr>"

definition long_message :: "nat \<Rightarrow> string" where
  "long_message n = replicate n CHR ''a''"

section \<open>Sending a message\<close>

lemma trim_Nil [simp]: "trim [] = []"
  by (simp add: trim_def)

lemma dropWhile_all_iff:
  "(\<forall>x\<in>set (dropWhile P xs). P x) \<longleftrightarrow> (\<forall>x\<in>set xs. P x)"
proof
  assume all: "\<forall>x\<in>set (dropWhile P xs). P x"
  have "dropWhile P xs = []"
  proof (rule ccontr)
    assume ne: "dropWhile P xs \<noteq> []"
    then have "\<not> P (hd (dropWhile P xs))" by (rule hd_dropWhile)
    moreover from ne have "hd (dropWhile P xs) \<in> set (dropWhile P xs)" by (rule hd_in_set)
    ultimately show False using all by blast
  qed
  then show "\<forall>x\<in>set xs. P x" by simp
next
  assume "\<forall>x\<in>set xs. P x"
  then show "\<forall>x\<in>set (dropWhile P xs). P x" by (auto dest: set_dropWhileD)
qed

text \<open>The trimmed value is empty exactly for the empty and the whitespace-only inputs.\<close>

lemma trim_empty_iff: "trim v = [] \<longleftrightarrow> (\<forall>c\<in>set v. is_white_space c)"
  by (simp add: trim_def dropWhile_all_iff)

lemma emitted_showAlert: "emitted name (showAlert t m s) = emitted name s"
  by (simp add: emitted_def showAlert_def)

text \<open>
  C5: when the trimmed value of the input field is empty (the field is empty or holds
  white space only), \<open>sendChatMessage\<close> returns with every global and the whole document
  unchanged; in particular no \<^verbatim>\<open>send_message\<close> event is emitted.
\<close>

theorem sendChatMessage_blank_rejected:
  assumes "chatInput (doc s) = Some v" and "trim v = []"
  shows "sendChatMessage s = Returns s
    \<and> emitted ''send_message'' (state_of (sendChatMessage s)) = emitted ''send_message'' s"
  using assms by (simp add: sendChatMessage_def)

theorem sendChatMessage_blank_rejected_witness:
  "chatInput (doc (typed ''   '' connected_page)) = Some ''   '' \<and> trim ''   '' = []
   \<and> sendChatMessage (typed ''   '' connected_page) = Returns (typed ''   '' connected_page)"
  using sendChatMessage_blank_rejected [of "typed ''   '' connected_page" "''   ''"]
  by (simp add: typed_def connected_page_def trim_def is_white_space_def)

text \<open>
  C10: in each of the three rejecting cases (empty trimmed message, not connected,
  more than 500 characters) \<open>sendChatMessage\<close> returns with the socket and the input
  field as they were; and over all cases a \<^verbatim>\<open>send_message\<close> event is emitted exactly
  when the value of the input field changes, which it only does by becoming empty.
\<close>

theorem sendChatMessage_clears_iff_emits:
  assumes "chatInput (doc s) = Some v"
  shows "(trim v = [] \<or> \<not> isConnectedToChat s \<or> length (trim v) > 500 \<longrightarrow>
            (\<exists>s'. sendChatMessage s = Returns s' \<and> socket s' = socket s
               \<and> chatInput (doc s') = Some v))
       \<and> ((emitted ''send_message'' (state_of (sendChatMessage s)) \<noteq> emitted ''send_message'' s)
            = (chatInput (doc (state_of (sendChatMessage s))) \<noteq> Some v))
       \<and> (chatInput (doc (state_of (sendChatMessage s))) \<noteq> Some v \<longrightarrow>
            chatInput (doc (state_of (sendChatMessage s))) = Some [])"
  using assms
  by (auto simp: sendChatMessage_def Let_def showAlert_def emitted_def split: option.splits)

lemma trim_unchanged:
  assumes "v \<noteq> []" and "\<not> is_white_space (hd v)" and "\<not> is_white_space (last v)"
  shows "trim v = v"
proof -
  from assms(1,2) have "dropWhile is_white_space v = v"
    by (cases v) simp_all
  moreover from assms(1,3) have "dropWhile is_white_space (rev v) = rev v"
    by (cases "rev v") (simp_all add: hd_rev [symmetric])
  ultimately show ?thesis by (simp add: trim_def)
qed

lemma trim_hi: "trim ''hi there'' = ''hi there''"
  by (rule trim_unchanged) (simp_all add: is_white_space_def)

theorem sendChatMessage_clears_iff_emits_witness:
  "chatInput (doc (typed ''hi there'' connected_page)) = Some ''hi there''
   \<and> emitted ''send_message'' (state_of (sendChatMessage (typed ''hi there'' connected_page)))
       \<noteq> emitted ''send_message'' (typed ''hi there'' connected_page)
   \<and> chatInput (doc (state_of (sendChatMessage (typed ''hi there'' connected_page)))) = Some []
   \<and> (\<not> isConnectedToChat (typed ''hi there'' disconnected_page)
      \<and> (\<exists>s'. sendChatMessage (typed ''hi there'' disconnected_page) = Returns s'
            \<and> socket s' = socket (typed ''hi there'' disconnected_page)
            \<and> chatInput (doc s') = Some ''hi there''))"
proof -
  have a: "chatInput (doc (typed ''hi there'' connected_page)) = Some ''hi there''"
    by (simp add: typed_def)
  have b: "chatInput (doc (typed ''hi there'' disconnected_page)) = Some ''hi there''"
    by (simp add: typed_def)
  have c: "\<not> isConnectedToChat (typed ''hi there'' disconnected_page)"
    by (simp add: typed_def disconnected_page_def)
  have d: "chatInput (doc (state_of (sendChatMessage (typed ''hi there'' connected_page)))) = Some []"
    by (simp add: typed_def connected_page_def sendChatMessage_def trim_hi)
  have e: "chatInput (doc (state_of (sendChatMessage (typed ''hi there'' connected_page))))
      \<noteq> Some ''hi there''"
    using d by simp
  show ?thesis
    using sendChatMessage_clears_iff_emits [OF a] sendChatMessage_clears_iff_emits [OF b] a c d e
    by blast
qed

lemma trim_long_message: "trim (long_message n) = long_message n"
proof (cases n)
  case 0
  then show ?thesis by (simp add: long_message_def)
next
  case (Suc k)
  then show ?thesis
    unfolding long_message_def
    by (intro trim_unchanged) (simp_all add: is_white_space_def)
qed

text \<open>
  C1 as stated fails: a message of five characters is not sent by a client that is not
  connected to the chat (it gets the other warning), and the empty message, which has no
  surrounding white space and at most 500 characters, is not sent by a connected one.
\<close>

theorem sendChatMessage_ignores_length_when_disconnected:
  "trim ''hello'' = ''hello'' \<and> length ''hello'' \<le> 500
   \<and> sendChatMessage (typed ''hello'' disconnected_page)
       = Returns (showAlert ''warning'' ''Not connected to chat. Please refresh the page.''
           (typed ''hello'' disconnected_page))
   \<and> emitted ''send_message'' (state_of (sendChatMessage (typed ''hello'' disconnected_page))) = []
   \<and> trim [] = [] \<and> length ([] :: string) \<le> 500
   \<and> emitted ''send_message'' (state_of (sendChatMessage (typed [] connected_page))) = []"
proof -
  have t: "trim ''hello'' = ''hello''"
    by (rule trim_unchanged) (simp_all add: is_white_space_def)
  have a: "sendChatMessage (typed ''hello'' disconnected_page)
       = Returns (showAlert ''warning'' ''Not connected to chat. Please refresh the page.''
           (typed ''hello'' disconnected_page))"
    by (simp add: sendChatMessage_def t typed_def disconnected_page_def)
  have b: "emitted ''send_message'' (typed ''hello'' disconnected_page) = []"
    by (simp add: emitted_def typed_def disconnected_page_def connected_page_def)
  have c: "sendChatMessage (typed [] connected_page) = Returns (typed [] connected_page)"
    by (simp add: sendChatMessage_def typed_def)
  have d: "emitted ''send_message'' (typed [] connected_page) = []"
    by (simp add: emitted_def typed_def connected_page_def)
  show ?thesis by (simp add: t a b c d emitted_showAlert)
qed

text \<open>
  C1, amended: on a client that is connected to the chat, for a non-empty trimmed
  message, \<open>sendChatMessage\<close> emits \<^verbatim>\<open>send_message\<close> with the trimmed message when it
  has at most 500 characters, and otherwise emits nothing and shows the warning
  \<^verbatim>\<open>Message too long (max 500 characters)\<close>. The witness takes 500 and 501 characters.
\<close>

theorem sendChatMessage_length_limit:
  assumes "chatInput (doc s) = Some v" and "isConnectedToChat s" and "socket s = Some sent"
    and "trim v \<noteq> []"
  shows "(length (trim v) \<le> 500 \<longrightarrow>
            sendChatMessage s = Returns (s\<lparr>socket := Some (sent @
                [(''send_message'',
                  [(''stream_id'', currentStreamId s), (''message'', JStr (trim v))])]),
                doc := (doc s)\<lparr>chatInput := Some []\<rparr>\<rparr>)
            \<and> emitted ''send_message'' (state_of (sendChatMessage s))
                = emitted ''send_message'' s @
                  [(''send_message'',
                    [(''stream_id'', currentStreamId s), (''message'', JStr (trim v))])])
       \<and> (length (trim v) > 500 \<longrightarrow>
            sendChatMessage s
              = Returns (showAlert ''warning'' ''Message too long (max 500 characters)'' s)
            \<and> emitted ''send_message'' (state_of (sendChatMessage s))
                = emitted ''send_message'' s)"
  using assms by (simp add: sendChatMessage_def emitted_def showAlert_def)

theorem sendChatMessage_length_limit_witness:
  "length (trim (long_message 500)) = 500
   \<and> emitted ''send_message'' (state_of (sendChatMessage (typed (long_message 500) connected_page)))
       = [(''send_message'', [(''stream_id'', JNum 7), (''message'', JStr (long_message 500))])]
   \<and> length (trim (long_message 501)) = 501
   \<and> sendChatMessage (typed (long_message 501) connected_page)
       = Returns (showAlert ''warning'' ''Message too long (max 500 characters)''
           (typed (long_message 501) connected_page))
   \<and> emitted ''send_message'' (state_of (sendChatMessage (typed (long_message 501) connected_page))) = []"
proof -
  have i: "chatInput (doc (typed v connected_page)) = Some v" for v
    by (simp add: typed_def)
  have c: "isConnectedToChat (typed v connected_page)" for v
    by (simp add: typed_def connected_page_def)
  have k: "socket (typed v connected_page) = Some []" for v
    by (simp add: typed_def connected_page_def)
  have n: "trim (long_message 500) \<noteq> []" "trim (long_message 501) \<noteq> []"
    by (simp_all add: trim_long_message) (simp_all add: long_message_def)
  have l: "length (trim (long_message 500)) = 500" "length (trim (long_message 501)) = 501"
    by (simp_all add: trim_long_message) (simp_all add: long_message_def)
  have len: "length (long_message m) = m" for m
    by (simp add: long_message_def)
  have e: "emitted ''send_message'' (typed v connected_page) = []" for v
    by (simp add: emitted_def k)
  have sid: "currentStreamId (typed v connected_page) = JNum 7" for v
    by (simp add: typed_def connected_page_def)
  show ?thesis
    using sendChatMessage_length_limit [OF i c k n(1)] sendChatMessage_length_limit [OF i c k n(2)]
    by (simp add: len e sid trim_long_message emitted_showAlert) (simp add: emitted_def)
qed

section \<open>The message container\<close>

lemma filter_remove_first: "filter P (remove_first P xs) = tl (filter P xs)"
  by (induction xs) simp_all

lemma chatMessages_hideChatPlaceholder [simp]:
  "chatMessages (doc (hideChatPlaceholder s)) = chatMessages (doc s)"
  by (simp add: hideChatPlaceholder_def split: option.splits)

lemma chat_messages_hideChatPlaceholder [simp]:
  "chat_messages (hideChatPlaceholder s) = chat_messages s"
  by (simp add: chat_messages_def)

lemma is_chat_message_messageDiv [simp]: "is_chat_message (messageDiv f u m t b)"
  by (simp add: messageDiv_def Let_def)

lemma is_chat_message_render [simp]: "is_chat_message (render b m)"
  by (simp add: render_def)

text \<open>Only the chat messages count in the selection, and each of them at least once.\<close>

lemma selected_filter:
  "sum_list (map selected (filter is_chat_message c)) = sum_list (map selected c)"
proof (induction c)
  case Nil
  then show ?case by simp
next
  case (Cons n c)
  then show ?case by (cases n) simp_all
qed

lemma length_le_selected:
  "\<forall>n\<in>set xs. is_chat_message n \<Longrightarrow> length xs \<le> sum_list (map selected xs)"
proof (induction xs)
  case Nil
  then show ?case by simp
next
  case (Cons n xs)
  then show ?case by (cases n) simp_all
qed

lemma selected_plain:
  "\<forall>n\<in>set xs. is_chat_message n \<and> selected n \<le> 1 \<Longrightarrow> sum_list (map selected xs) = length xs"
proof (induction xs)
  case Nil
  then show ?case by simp
next
  case (Cons n xs)
  then show ?case by (cases n) simp_all
qed

lemma chat_messages_all_chat: "\<forall>n\<in>set (chat_messages s). is_chat_message n"
  by (auto simp: chat_messages_def split: option.splits)

lemma drop_append_le: "j \<le> length xs \<Longrightarrow> drop j xs @ ys = drop j (xs @ ys)"
  by simp

lemma chatMessages_addChatMessage:
  assumes "chatMessages (doc s) = Some c"
  shows "chatMessages (doc (addChatMessage f u m t b s)) =
     Some (if sum_list (map selected (c @ [messageDiv f u m t b])) > 100
           then remove_first is_chat_message (c @ [messageDiv f u m t b])
           else c @ [messageDiv f u m t b])"
  using assms by (simp add: addChatMessage_def Let_def)

text \<open>
  One call, seen on the chat messages of the container: the new one is appended, and
  the oldest one leaves when the selection has more than 100 elements.
\<close>

lemma chat_messages_addChatMessage:
  assumes "chatMessages (doc s) = Some c"
  shows "chat_messages (addChatMessage f u m t b s) =
     (if sum_list (map selected (chat_messages s @ [messageDiv f u m t b])) > 100
      then tl (chat_messages s @ [messageDiv f u m t b])
      else chat_messages s @ [messageDiv f u m t b])"
proof -
  have "sum_list (map selected (filter is_chat_message c)) = sum_list (map selected c)"
    by (rule selected_filter)
  then show ?thesis
    using assms
    by (simp add: chat_messages_def chatMessages_addChatMessage filter_remove_first)
qed

lemma container_addChatMessage:
  assumes "chatMessages (doc s) = Some c"
  shows "\<exists>c'. chatMessages (doc (addChatMessage f u m t b s)) = Some c'"
  using assms by (simp add: chatMessages_addChatMessage)

lemma addChatMessages_Cons:
  "addChatMessages b (m # ms) s =
     addChatMessages b ms
       (addChatMessage b (msg_username m) (msg_message m) (msg_timestamp m) (msg_is_bot m) s)"
  by (simp add: addChatMessages_def)

text \<open>The chat messages left after a run of calls are the most recent ones.\<close>

lemma chat_messages_addChatMessages_suffix:
  assumes "chatMessages (doc s) = Some c"
  shows "\<exists>k. chat_messages (addChatMessages b ms s) =
     drop k (chat_messages s @ map (render b) ms)"
  using assms
proof (induction ms arbitrary: s c)
  case Nil
  have "chat_messages s = drop 0 (chat_messages s)" by simp
  then show ?case unfolding addChatMessages_def by (intro exI [of _ 0]) simp
next
  case (Cons m ms)
  let ?x = "render b m"
  let ?s = "addChatMessage b (msg_username m) (msg_message m) (msg_timestamp m) (msg_is_bot m) s"
  have step: "chat_messages ?s =
      (if sum_list (map selected (chat_messages s @ [?x])) > 100
       then tl (chat_messages s @ [?x]) else chat_messages s @ [?x])"
    unfolding render_def by (rule chat_messages_addChatMessage [OF Cons.prems])
  obtain j where j: "chat_messages ?s = drop j (chat_messages s @ [?x])"
    and jle: "j \<le> length (chat_messages s @ [?x])"
  proof (cases "sum_list (map selected (chat_messages s @ [?x])) > 100")
    case True
    then have "chat_messages ?s = drop 1 (chat_messages s @ [?x])"
      by (simp only: step if_True drop_Suc drop_0 One_nat_def)
    then show ?thesis using that [of 1] by simp
  next
    case False
    then have "chat_messages ?s = drop 0 (chat_messages s @ [?x])"
      by (simp only: step if_False drop_0)
    then show ?thesis using that [of 0] by simp
  qed
  obtain c' where c': "chatMessages (doc ?s) = Some c'"
    using container_addChatMessage [OF Cons.prems] by blast
  obtain k where k: "chat_messages (addChatMessages b ms ?s) =
      drop k (chat_messages ?s @ map (render b) ms)"
    using Cons.IH [OF c'] by blast
  have app: "drop j (chat_messages s @ [?x]) @ map (render b) ms
      = drop j ((chat_messages s @ [?x]) @ map (render b) ms)"
    by (rule drop_append_le [OF jle])
  have all: "(chat_messages s @ [?x]) @ map (render b) ms
      = chat_messages s @ map (render b) (m # ms)"
    by simp
  have "chat_messages (addChatMessages b (m # ms) s)
      = drop k (chat_messages ?s @ map (render b) ms)"
    by (simp only: addChatMessages_Cons k)
  also have "\<dots> = drop k (drop j ((chat_messages s @ [?x]) @ map (render b) ms))"
    by (simp only: j app)
  also have "\<dots> = drop (k + j) (chat_messages s @ map (render b) (m # ms))"
    by (simp only: drop_drop all)
  finally show ?case by blast
qed

lemma length_chat_messages_addChatMessages:
  assumes "chatMessages (doc s) = Some c" and "length (chat_messages s) \<le> 100"
  shows "length (chat_messages (addChatMessages b ms s)) \<le> 100"
  using assms
proof (induction ms arbitrary: s c)
  case Nil
  then show ?case by (simp add: addChatMessages_def)
next
  case (Cons m ms)
  let ?x = "render b m"
  let ?s = "addChatMessage b (msg_username m) (msg_message m) (msg_timestamp m) (msg_is_bot m) s"
  have step: "chat_messages ?s =
      (if sum_list (map selected (chat_messages s @ [?x])) > 100
       then tl (chat_messages s @ [?x]) else chat_messages s @ [?x])"
    unfolding render_def by (rule chat_messages_addChatMessage [OF Cons.prems(1)])
  have "\<forall>n\<in>set (chat_messages s @ [?x]). is_chat_message n"
    using chat_messages_all_chat [of s] by simp
  then have "length (chat_messages s @ [?x]) \<le> sum_list (map selected (chat_messages s @ [?x]))"
    by (rule length_le_selected)
  then have len: "length (chat_messages ?s) \<le> 100"
    using Cons.prems(2) by (simp add: step)
  obtain c' where c': "chatMessages (doc ?s) = Some c'"
    using container_addChatMessage [OF Cons.prems(1)] by blast
  show ?case
    using Cons.IH [OF c' len] by (simp add: addChatMessages_Cons)
qed

lemma keep_last_step:
  assumes "length xs \<le> (100::nat)"
  shows "drop (length (if length xs \<ge> 100 then tl (xs @ [x]) else xs @ [x]) + n - 100)
           ((if length xs \<ge> 100 then tl (xs @ [x]) else xs @ [x]) @ rest)
         = drop (length xs + Suc n - 100) (xs @ x # rest)"
proof (cases "length xs = 100")
  case True
  then have ne: "xs \<noteq> []" by auto
  then have "xs @ x # rest = hd xs # (tl xs @ x # rest)" by simp
  then have "drop (Suc n) (xs @ x # rest) = drop n (tl xs @ x # rest)"
    by (metis drop_Suc_Cons)
  with True ne show ?thesis by simp
next
  case False
  with assms show ?thesis by simp
qed

text \<open>
  When no chat message holds further elements of the selection, the selection is the
  list of chat messages and exactly the last 100 are kept.
\<close>

lemma chat_messages_addChatMessages_plain:
  assumes "chatMessages (doc s) = Some c" and "length (chat_messages s) \<le> 100"
    and "\<forall>n\<in>set (chat_messages s @ map (render b) ms). selected n \<le> 1"
  shows "chat_messages (addChatMessages b ms s) =
     drop (length (chat_messages s) + length ms - 100) (chat_messages s @ map (render b) ms)"
  using assms
proof (induction ms arbitrary: s c)
  case Nil
  then show ?case by (simp add: addChatMessages_def)
next
  case (Cons m ms)
  let ?x = "render b m"
  let ?s = "addChatMessage b (msg_username m) (msg_message m) (msg_timestamp m) (msg_is_bot m) s"
  let ?ys = "if length (chat_messages s) \<ge> 100 then tl (chat_messages s @ [?x])
             else chat_messages s @ [?x]"
  have "\<forall>n\<in>set (chat_messages s @ [?x]). is_chat_message n \<and> selected n \<le> 1"
    using chat_messages_all_chat [of s] Cons.prems(3) by simp
  then have "sum_list (map selected (chat_messages s @ [?x])) = length (chat_messages s @ [?x])"
    by (rule selected_plain)
  then have ys: "chat_messages ?s = ?ys"
    using chat_messages_addChatMessage [OF Cons.prems(1), of b "msg_username m" "msg_message m"
        "msg_timestamp m" "msg_is_bot m"]
    by (simp add: render_def)
  obtain c' where c': "chatMessages (doc ?s) = Some c'"
    using container_addChatMessage [OF Cons.prems(1)] by blast
  have len: "length (chat_messages ?s) \<le> 100"
    using Cons.prems(2) by (simp add: ys)
  have "set (chat_messages ?s) \<subseteq> set (chat_messages s @ [?x])"
    unfolding ys by (auto dest: list.set_sel(2) [rotated])
  then have plain: "\<forall>n\<in>set (chat_messages ?s @ map (render b) ms). selected n \<le> 1"
    using Cons.prems(3) by auto
  have "chat_messages (addChatMessages b (m # ms) s) = chat_messages (addChatMessages b ms ?s)"
    by (simp add: addChatMessages_Cons)
  also have "\<dots> = drop (length (chat_messages ?s) + length ms - 100)
                     (chat_messages ?s @ map (render b) ms)"
    by (rule Cons.IH [OF c' len plain])
  also have "\<dots> = drop (length (chat_messages s) + Suc (length ms) - 100)
                     (chat_messages s @ ?x # map (render b) ms)"
    unfolding ys by (rule keep_last_step [OF Cons.prems(2)])
  finally show ?case by simp
qed


text \<open>
  The messages of a run that bring at most 100 elements of the selection between them
  all stay: only older chat messages are evicted.
\<close>

lemma chat_messages_addChatMessages_keep:
  assumes "chatMessages (doc s) = Some c" and "chat_messages s = ys @ ps"
    and "sum_list (map selected (ps @ map (render b) ms)) \<le> 100"
  shows "\<exists>k. chat_messages (addChatMessages b ms s) = drop k ys @ ps @ map (render b) ms"
  using assms
proof (induction ms arbitrary: s c ys ps)
  case Nil
  have "chat_messages s = drop 0 ys @ ps" using Nil.prems(2) by simp
  then show ?case unfolding addChatMessages_def by (intro exI [of _ 0]) simp
next
  case (Cons m ms)
  let ?x = "render b m"
  let ?s = "addChatMessage b (msg_username m) (msg_message m) (msg_timestamp m) (msg_is_bot m) s"
  have step: "chat_messages ?s =
      (if sum_list (map selected (ys @ ps @ [?x])) > 100
       then tl (ys @ ps @ [?x]) else ys @ ps @ [?x])"
    using chat_messages_addChatMessage [OF Cons.prems(1), of b "msg_username m" "msg_message m"
        "msg_timestamp m" "msg_is_bot m"]
    by (simp add: render_def Cons.prems(2))
  obtain c' where c': "chatMessages (doc ?s) = Some c'"
    using container_addChatMessage [OF Cons.prems(1)] by blast
  have rest: "sum_list (map selected ((ps @ [?x]) @ map (render b) ms)) \<le> 100"
    using Cons.prems(3) by simp
  show ?case
  proof (cases "sum_list (map selected (ys @ ps @ [?x])) > 100")
    case True
    moreover have "sum_list (map selected (ps @ [?x])) \<le> 100"
      using Cons.prems(3) by simp
    ultimately have "ys \<noteq> []" by auto
    then have "chat_messages ?s = tl ys @ (ps @ [?x])"
      using True by (simp add: step)
    from Cons.IH [OF c' this rest]
    obtain k where "chat_messages (addChatMessages b ms ?s)
        = drop k (tl ys) @ (ps @ [?x]) @ map (render b) ms"
      by blast
    then have "chat_messages (addChatMessages b (m # ms) s)
        = drop (Suc k) ys @ ps @ map (render b) (m # ms)"
      by (simp add: addChatMessages_Cons drop_Suc)
    then show ?thesis by blast
  next
    case False
    then have "chat_messages ?s = ys @ (ps @ [?x])"
      by (simp add: step)
    from Cons.IH [OF c' this rest]
    obtain k where "chat_messages (addChatMessages b ms ?s)
        = drop k ys @ (ps @ [?x]) @ map (render b) ms"
      by blast
    then have "chat_messages (addChatMessages b (m # ms) s)
        = drop k ys @ ps @ map (render b) (m # ms)"
      by (simp add: addChatMessages_Cons)
    then show ?thesis by blast
  qed
qed

text \<open>At the limit the call evicts the oldest chat message, whatever the new one holds.\<close>

lemma chat_messages_addChatMessage_full:
  assumes "chatMessages (doc s) = Some c" and "length (chat_messages s) \<ge> 100"
  shows "chat_messages (addChatMessage b u m t i s) = tl (chat_messages s) @ [messageDiv b u m t i]"
proof -
  let ?x = "messageDiv b u m t i"
  have "\<forall>n\<in>set (chat_messages s @ [?x]). is_chat_message n"
    using chat_messages_all_chat [of s] by simp
  then have "length (chat_messages s @ [?x]) \<le> sum_list (map selected (chat_messages s @ [?x]))"
    by (rule length_le_selected)
  then have "sum_list (map selected (chat_messages s @ [?x])) > 100"
    using assms(2) by simp
  moreover have "chat_messages s \<noteq> []" using assms(2) by auto
  ultimately show ?thesis
    by (simp add: chat_messages_addChatMessage [OF assms(1)])
qed

text \<open>
  C3: on a page whose container holds at most 100 chat messages (the empty container of
  a fresh page in particular), after any run of \<open>addChatMessage\<close> calls the container
  holds at most 100 chat messages, and they are the most recent ones in arrival order: a
  final part of the old ones followed by the new ones. A call removes the first chat
  message in document order exactly when the selection \<^verbatim>\<open>.chat-message\<close> has more than
  100 elements after appending, which is the case whenever the container held 100 chat
  messages. The selection also holds the elements of that class that the markup of a user
  name brought in, so with such names messages leave earlier; when no chat message holds
  such elements, exactly the last 100 are kept.
\<close>

theorem addChatMessage_keeps_last_100:
  assumes "chatMessages (doc s) = Some c" and "length (chat_messages s) \<le> 100"
  shows "length (chat_messages (addChatMessages b ms s)) \<le> 100
       \<and> (\<exists>k. chat_messages (addChatMessages b ms s) =
             drop k (chat_messages s @ map (render b) ms))
       \<and> chat_messages (addChatMessage b u m t i s) =
           (if sum_list (map selected (chat_messages s @ [messageDiv b u m t i])) > 100
            then tl (chat_messages s @ [messageDiv b u m t i])
            else chat_messages s @ [messageDiv b u m t i])
       \<and> (length (chat_messages s) = 100 \<longrightarrow>
            chat_messages (addChatMessage b u m t i s) =
              tl (chat_messages s) @ [messageDiv b u m t i])
       \<and> ((\<forall>n\<in>set (chat_messages s @ map (render b) ms). selected n \<le> 1) \<longrightarrow>
            chat_messages (addChatMessages b ms s) =
              drop (length (chat_messages s) + length ms - 100)
                (chat_messages s @ map (render b) ms))"
proof (intro conjI impI)
  show "length (chat_messages (addChatMessages b ms s)) \<le> 100"
    by (rule length_chat_messages_addChatMessages [OF assms])
  show "\<exists>k. chat_messages (addChatMessages b ms s) =
      drop k (chat_messages s @ map (render b) ms)"
    by (rule chat_messages_addChatMessages_suffix [OF assms(1)])
  show "chat_messages (addChatMessage b u m t i s) =
      (if sum_list (map selected (chat_messages s @ [messageDiv b u m t i])) > 100
       then tl (chat_messages s @ [messageDiv b u m t i])
       else chat_messages s @ [messageDiv b u m t i])"
    by (rule chat_messages_addChatMessage [OF assms(1)])
  show "chat_messages (addChatMessage b u m t i s) =
      tl (chat_messages s) @ [messageDiv b u m t i]" if "length (chat_messages s) = 100"
    using that by (intro chat_messages_addChatMessage_full [OF assms(1)]) simp
  show "chat_messages (addChatMessages b ms s) =
      drop (length (chat_messages s) + length ms - 100)
        (chat_messages s @ map (render b) ms)"
    if "\<forall>n\<in>set (chat_messages s @ map (render b) ms). selected n \<le> 1"
    by (rule chat_messages_addChatMessages_plain [OF assms that])
qed

lemma chat_messages_connected_page: "chat_messages connected_page = []"
  by (simp add: chat_messages_def connected_page_def)

lemma chatMessages_connected_page: "chatMessages (doc connected_page) = Some []"
  by (simp add: connected_page_def)

lemma selected_numbered: "selected (render example_browser (numbered i)) = 1"
  by (simp add: render_def messageDiv_def Let_def numbered_def example_browser_def)

lemma selected_hello: "selected (render example_browser hello_payload) = 1"
  by (simp add: render_def messageDiv_def Let_def hello_payload_def example_browser_def)

lemma selected_nested: "selected (render example_browser nested_payload) = 2"
  by (simp add: render_def messageDiv_def Let_def nested_payload_def example_browser_def)

text \<open>
  A run of messages whose user name is \<^verbatim>\<open><div class=chat-message>x</div>\<close>: each holds two
  elements of the selection, so the container never keeps more than 50 of them.
\<close>

lemma nested_run:
  assumes "chatMessages (doc s) = Some c"
    and "chat_messages s = replicate k (render example_browser nested_payload)" and "k \<le> 50"
  shows "chat_messages (addChatMessages example_browser (replicate n nested_payload) s)
     = replicate (min (k + n) 50) (render example_browser nested_payload)"
  using assms
proof (induction n arbitrary: s c k)
  case 0
  then show ?case by (simp add: addChatMessages_def)
next
  case (Suc n)
  let ?x = "render example_browser nested_payload"
  let ?s = "addChatMessage example_browser (msg_username nested_payload)
      (msg_message nested_payload) (msg_timestamp nested_payload) (msg_is_bot nested_payload) s"
  have app: "replicate k ?x @ [?x] = replicate (Suc k) ?x"
    by (simp add: replicate_append_same)
  have sum: "sum_list (map selected (replicate (Suc k) ?x)) = 2 * Suc k"
    by (simp add: selected_nested sum_list_replicate)
  have step: "chat_messages ?s =
      (if 2 * Suc k > 100 then tl (replicate (Suc k) ?x) else replicate (Suc k) ?x)"
    using chat_messages_addChatMessage [OF Suc.prems(1), of example_browser
        "msg_username nested_payload" "msg_message nested_payload"
        "msg_timestamp nested_payload" "msg_is_bot nested_payload"]
    unfolding render_def [symmetric] Suc.prems(2) app sum .
  obtain c' where c': "chatMessages (doc ?s) = Some c'"
    using container_addChatMessage [OF Suc.prems(1)] by blast
  have run: "addChatMessages example_browser (replicate (Suc n) nested_payload) s
      = addChatMessages example_browser (replicate n nested_payload) ?s"
    by (simp add: addChatMessages_Cons)
  show ?case
  proof (cases "k = 50")
    case True
    then have "chat_messages ?s = replicate 50 ?x" by (simp add: step)
    from Suc.IH [OF c' this] True show ?thesis unfolding run by simp
  next
    case False
    with Suc.prems(3) have k: "Suc k \<le> 50" by simp
    then have "chat_messages ?s = replicate (Suc k) ?x" by (simp add: step)
    from Suc.IH [OF c' this k] show ?thesis unfolding run by simp
  qed
qed

theorem addChatMessage_keeps_last_100_witness:
  "chatMessages (doc connected_page) = Some [] \<and> length (chat_messages connected_page) \<le> 100
   \<and> sum_list (map selected (chat_messages connected_page
          @ map (render example_browser) (map numbered [0..<103]))) = 103
   \<and> chat_messages (addChatMessages example_browser (map numbered [0..<103]) connected_page)
       = map (render example_browser) (map numbered [3..<103])
   \<and> length (chat_messages
        (addChatMessages example_browser (map numbered [0..<103]) connected_page)) \<le> 100
   \<and> chat_messages (addChatMessage example_browser ''alice'' ''hello''
         ''2024-05-01T12:30:00Z'' False connected_page)
       = [messageDiv example_browser ''alice'' ''hello'' ''2024-05-01T12:30:00Z'' False]"
proof -
  have l: "length (chat_messages connected_page) \<le> 100"
    by (simp add: chat_messages_connected_page)
  have p: "\<forall>n\<in>set (chat_messages connected_page
      @ map (render example_browser) (map numbered [0..<103])). selected n \<le> 1"
    by (simp add: chat_messages_connected_page selected_numbered)
  have one: "sum_list (map selected
      [messageDiv example_browser ''alice'' ''hello'' ''2024-05-01T12:30:00Z'' False]) = 1"
    by (simp add: messageDiv_def Let_def example_browser_def)
  note T = addChatMessage_keeps_last_100 [OF chatMessages_connected_page l,
      where b = example_browser and ms = "map numbered [0..<103]" and u = "''alice''"
        and m = "''hello''" and t = "''2024-05-01T12:30:00Z''" and i = False]
  from T have len: "length (chat_messages
      (addChatMessages example_browser (map numbered [0..<103]) connected_page)) \<le> 100"
    by (rule conjunct1)
  from T p have "chat_messages
      (addChatMessages example_browser (map numbered [0..<103]) connected_page)
      = drop (length (chat_messages connected_page) + length (map numbered [0..<103]) - 100)
          (chat_messages connected_page @ map (render example_browser) (map numbered [0..<103]))"
    by blast
  then have last: "chat_messages
      (addChatMessages example_browser (map numbered [0..<103]) connected_page)
      = map (render example_browser) (map numbered [3..<103])"
    by (simp add: chat_messages_connected_page drop_map)
  from T have "chat_messages (addChatMessage example_browser ''alice'' ''hello''
        ''2024-05-01T12:30:00Z'' False connected_page)
      = (if sum_list (map selected (chat_messages connected_page
             @ [messageDiv example_browser ''alice'' ''hello'' ''2024-05-01T12:30:00Z'' False]))
           > 100
         then tl (chat_messages connected_page
             @ [messageDiv example_browser ''alice'' ''hello'' ''2024-05-01T12:30:00Z'' False])
         else chat_messages connected_page
             @ [messageDiv example_browser ''alice'' ''hello'' ''2024-05-01T12:30:00Z'' False])"
    by blast
  then have first: "chat_messages (addChatMessage example_browser ''alice'' ''hello''
        ''2024-05-01T12:30:00Z'' False connected_page)
      = [messageDiv example_browser ''alice'' ''hello'' ''2024-05-01T12:30:00Z'' False]"
    by (simp only: chat_messages_connected_page append_Nil one) simp
  have "\<forall>n\<in>set (chat_messages connected_page
      @ map (render example_browser) (map numbered [0..<103])). is_chat_message n \<and> selected n \<le> 1"
    by (simp add: chat_messages_connected_page selected_numbered)
  then have "sum_list (map selected (chat_messages connected_page
      @ map (render example_browser) (map numbered [0..<103])))
      = length (chat_messages connected_page
          @ map (render example_browser) (map numbered [0..<103]))"
    by (rule selected_plain)
  then have total: "sum_list (map selected (chat_messages connected_page
      @ map (render example_browser) (map numbered [0..<103]))) = 103"
    by (simp add: chat_messages_connected_page)
  show ?thesis
    using chatMessages_connected_page l total len last first by blast
qed


lemma on_chat_history_nonempty:
  "ms \<noteq> [] \<Longrightarrow> on_chat_history b (Some ms) s = addChatMessages b ms (hideChatPlaceholder s)"
  by (simp add: on_chat_history_def addChatMessages_def)

text \<open>
  C4 as stated fails: of a history of 101 messages sent to a page with an empty
  container, the first entry is no longer in the container when the handler returns; the
  100 chat messages left are the entries 1 to 100. And of a history of 51 messages whose
  user name is \<^verbatim>\<open><div class=chat-message>x</div>\<close>, only 50 are left.
\<close>

theorem chat_history_of_101_omits_first:
  "length (map numbered [0..<101]) = 101
   \<and> chat_messages (on_chat_history example_browser (Some (map numbered [0..<101]))
         connected_page)
       = map (render example_browser) (map numbered [1..<101])
   \<and> length (chat_messages
        (on_chat_history example_browser (Some (map numbered [0..<101])) connected_page)) = 100
   \<and> length (replicate 51 nested_payload) = 51
   \<and> chat_messages (on_chat_history example_browser (Some (replicate 51 nested_payload))
         connected_page)
       = replicate 50 (render example_browser nested_payload)"
proof -
  have ne: "map numbered [0..<101] \<noteq> []" by simp
  have c: "chatMessages (doc (hideChatPlaceholder connected_page)) = Some []"
    by (simp add: chatMessages_connected_page)
  have l: "length (chat_messages (hideChatPlaceholder connected_page)) \<le> 100"
    by (simp add: chat_messages_connected_page)
  have p: "\<forall>n\<in>set (chat_messages (hideChatPlaceholder connected_page)
      @ map (render example_browser) (map numbered [0..<101])). selected n \<le> 1"
    by (simp add: chat_messages_connected_page selected_numbered)
  have a: "chat_messages (on_chat_history example_browser (Some (map numbered [0..<101]))
         connected_page)
       = map (render example_browser) (map numbered [1..<101])"
    by (simp add: on_chat_history_nonempty [OF ne] chat_messages_addChatMessages_plain [OF c l p]
        chat_messages_connected_page drop_map)
  have ne': "replicate 51 nested_payload \<noteq> []" by simp
  have e: "chat_messages (hideChatPlaceholder connected_page)
      = replicate 0 (render example_browser nested_payload)"
    by (simp add: chat_messages_connected_page)
  have b: "chat_messages (on_chat_history example_browser (Some (replicate 51 nested_payload))
         connected_page)
       = replicate 50 (render example_browser nested_payload)"
    using nested_run [OF c e, of 51]
    by (simp add: on_chat_history_nonempty [OF ne'])
  show ?thesis by (simp add: a b)
qed

text \<open>
  C4, amended: for a \<^verbatim>\<open>chat_history\<close> event whose array is non-empty and whose entries
  bring at most 100 elements of class \<^verbatim>\<open>chat-message\<close> into the container between them
  (at most 100 entries, when no user name brings such elements of its own), on a page
  whose container exists, the chat messages of the container after the handler end with
  the rendering of every entry of the array, in the order of the array; before them come
  the most recent of the chat messages that were already there. When no chat message
  holds further elements of that class and the container held at most 100, the older
  ones kept are as many as the limit of 100 leaves room for.
\<close>

theorem on_chat_history_renders_in_order:
  assumes "chatMessages (doc s) = Some c" and "ms \<noteq> []"
    and "sum_list (map selected (map (render b) ms)) \<le> 100"
  shows "(\<exists>k. chat_messages (on_chat_history b (Some ms) s) =
             drop k (chat_messages s) @ map (render b) ms)
       \<and> (length (chat_messages s) \<le> 100
            \<and> (\<forall>n\<in>set (chat_messages s @ map (render b) ms). selected n \<le> 1) \<longrightarrow>
          chat_messages (on_chat_history b (Some ms) s) =
            drop (length (chat_messages s) + length ms - 100) (chat_messages s)
              @ map (render b) ms)"
proof (intro conjI impI)
  have c: "chatMessages (doc (hideChatPlaceholder s)) = Some c"
    using assms(1) by simp
  have split: "chat_messages (hideChatPlaceholder s) = chat_messages s @ []"
    by simp
  have sum: "sum_list (map selected ([] @ map (render b) ms)) \<le> 100"
    using assms(3) by simp
  show "\<exists>k. chat_messages (on_chat_history b (Some ms) s) =
      drop k (chat_messages s) @ map (render b) ms"
    using chat_messages_addChatMessages_keep [OF c split sum]
    by (simp add: on_chat_history_nonempty [OF assms(2)])
  show "chat_messages (on_chat_history b (Some ms) s) =
      drop (length (chat_messages s) + length ms - 100) (chat_messages s) @ map (render b) ms"
    if h: "length (chat_messages s) \<le> 100
      \<and> (\<forall>n\<in>set (chat_messages s @ map (render b) ms). selected n \<le> 1)"
  proof -
    have l: "length (chat_messages (hideChatPlaceholder s)) \<le> 100"
      using h by simp
    have p: "\<forall>n\<in>set (chat_messages (hideChatPlaceholder s) @ map (render b) ms).
        selected n \<le> 1"
      using h by simp
    have "\<forall>n\<in>set (map (render b) ms). is_chat_message n \<and> selected n \<le> 1"
      using h by simp
    then have "sum_list (map selected (map (render b) ms)) = length (map (render b) ms)"
      by (rule selected_plain)
    then have "length ms \<le> 100" using assms(3) by simp
    then show ?thesis
      by (simp add: on_chat_history_nonempty [OF assms(2)]
          chat_messages_addChatMessages_plain [OF c l p])
  qed
qed

theorem on_chat_history_renders_in_order_witness:
  "chatMessages (doc connected_page) = Some []
   \<and> [numbered 0, numbered 1, hello_payload] \<noteq> []
   \<and> sum_list (map selected
        (map (render example_browser) [numbered 0, numbered 1, hello_payload])) \<le> 100
   \<and> length (chat_messages connected_page) \<le> 100
   \<and> chat_messages (on_chat_history example_browser
         (Some [numbered 0, numbered 1, hello_payload]) connected_page)
       = [render example_browser (numbered 0), render example_browser (numbered 1),
          render example_browser hello_payload]"
proof -
  have ne: "[numbered 0, numbered 1, hello_payload] \<noteq> []" by simp
  have sum: "sum_list (map selected
      (map (render example_browser) [numbered 0, numbered 1, hello_payload])) \<le> 100"
    by (simp add: selected_numbered selected_hello)
  have l: "length (chat_messages connected_page) \<le> 100"
    by (simp add: chat_messages_connected_page)
  have p: "\<forall>n\<in>set (chat_messages connected_page
      @ map (render example_browser) [numbered 0, numbered 1, hello_payload]). selected n \<le> 1"
    by (simp add: chat_messages_connected_page selected_numbered selected_hello)
  from on_chat_history_renders_in_order [OF chatMessages_connected_page ne sum] l p
  have "chat_messages (on_chat_history example_browser
         (Some [numbered 0, numbered 1, hello_payload]) connected_page)
      = drop (length (chat_messages connected_page)
            + length [numbered 0, numbered 1, hello_payload] - 100) (chat_messages connected_page)
          @ map (render example_browser) [numbered 0, numbered 1, hello_payload]"
    by blast
  then have r: "chat_messages (on_chat_history example_browser
         (Some [numbered 0, numbered 1, hello_payload]) connected_page)
       = [render example_browser (numbered 0), render example_browser (numbered 1),
          render example_browser hello_payload]"
    by (simp add: chat_messages_connected_page)
  show ?thesis
    using chatMessages_connected_page ne sum l r by blast
qed

section \<open>Deleting a message\<close>

text \<open>
  \<open>removeMessage\<close> changes no child of the container that has no \<^verbatim>\<open>data-message-id\<close>
  attribute, whatever the (defined) id it is given, and it never removes or moves a child.
\<close>

lemma redact_without_id:
  assumes "mid \<noteq> JUndefined"
    and "\<forall>n\<in>set c. \<forall>m. n = ChatMessage m \<longrightarrow> data_message_id m = None"
  shows "map (redact mid) c = c"
  using assms(2)
proof (induction c)
  case Nil
  then show ?case by simp
next
  case (Cons n c)
  then show ?case using assms(1)
    by (cases n) (auto simp: dataset_messageId_def)
qed

lemma redact_keeps_kind: "is_chat_message (redact mid n) = is_chat_message n"
  by (cases n) simp_all

lemma removeMessage_keeps_positions:
  assumes "chatMessages (doc s) = Some c"
  shows "\<exists>c'. chatMessages (doc (removeMessage mid s)) = Some c' \<and> length c' = length c
     \<and> map is_chat_message c' = map is_chat_message c"
  using assms by (simp add: removeMessage_def redact_keeps_kind)

text \<open>
  No call of \<open>addChatMessage\<close> gives a node a \<^verbatim>\<open>data-message-id\<close>, so on a page whose chat
  messages all come from it, and none of which holds further elements of class
  \<^verbatim>\<open>chat-message\<close>, \<open>removeMessage\<close> changes nothing, whatever the id.
\<close>

lemma set_remove_first: "set (remove_first P xs) \<subseteq> set xs"
  by (induction xs) auto

lemma addChatMessage_sets_no_id:
  assumes "chatMessages (doc s) = Some c"
    and "\<forall>n\<in>set c. \<forall>m. n = ChatMessage m \<longrightarrow> data_message_id m = None"
  shows "\<exists>c'. chatMessages (doc (addChatMessage f u msg t b s)) = Some c'
     \<and> (\<forall>n\<in>set c'. \<forall>m. n = ChatMessage m \<longrightarrow> data_message_id m = None)"
proof -
  have new: "\<forall>n\<in>set (c @ [messageDiv f u msg t b]). \<forall>m. n = ChatMessage m \<longrightarrow>
      data_message_id m = None"
    using assms(2) by (auto simp: messageDiv_def Let_def)
  then have "\<forall>n\<in>set (remove_first is_chat_message (c @ [messageDiv f u msg t b])).
      \<forall>m. n = ChatMessage m \<longrightarrow> data_message_id m = None"
    using set_remove_first [of is_chat_message "c @ [messageDiv f u msg t b]"] by blast
  with new show ?thesis
    by (simp add: chatMessages_addChatMessage [OF assms(1)])
qed

lemma removeMessage_without_ids:
  assumes "mid \<noteq> JUndefined"
    and "chatMessages (doc s) = Some c"
    and "\<forall>n\<in>set c. \<forall>m. n = ChatMessage m \<longrightarrow> data_message_id m = None"
    and "\<forall>n\<in>set c. selected n \<le> 1"
  shows "removeMessage mid s = s"
  using assms(2) redact_without_id [OF assms(1,3)]
  by (simp add: removeMessage_def)

text \<open>
  C2: \<open>addChatMessage\<close> sets \<^verbatim>\<open>data-timestamp\<close> only, so the element it builds has no
  \<^verbatim>\<open>dataset.messageId\<close> for \<open>removeMessage\<close> to compare with the id of the event. After
  one message has been rendered, a \<^verbatim>\<open>message_deleted\<close> event with the id \<^verbatim>\<open>'1'\<close> (or the
  number 1) leaves the page as it was: the body still reads \<^verbatim>\<open>hello\<close>, not the
  placeholder.
\<close>

theorem message_deleted_misses_rendered_message:
  "chat_messages (on_new_message example_browser hello_payload connected_page)
     = [render example_browser hello_payload]
   \<and> on_message_deleted (JStr ''1'') (on_new_message example_browser hello_payload connected_page)
       = on_new_message example_browser hello_payload connected_page
   \<and> on_message_deleted (JNum 1) (on_new_message example_browser hello_payload connected_page)
       = on_new_message example_browser hello_payload connected_page
   \<and> chatMessages (doc (on_message_deleted (JStr ''1'')
          (on_new_message example_browser hello_payload connected_page)))
       = Some [ChatMessage \<lparr>text_muted = False, data_timestamp = ''2024-05-01T12:30:00Z'',
           data_message_id = None, avatarClass = ''bg-primary'', nameClass = ''text-primary'',
           iconClass = ''fas fa-user'', username_html = ''alice'', time_html = ''12:30'',
           p_innerHTML = ''hello'', descendant_messages = 0\<rparr>]"
proof -
  have c: "chatMessages (doc (on_new_message example_browser hello_payload connected_page))
      = Some [render example_browser hello_payload]"
    by (simp add: on_new_message_def chatMessages_addChatMessage [OF chatMessages_connected_page]
        render_def [symmetric] selected_hello)
  have r: "redact mid (render example_browser hello_payload) = render example_browser hello_payload"
    if "mid \<noteq> JUndefined" for mid
    using that by (simp add: render_def messageDiv_def Let_def dataset_messageId_def)
  have v: "render example_browser hello_payload
      = ChatMessage \<lparr>text_muted = False, data_timestamp = ''2024-05-01T12:30:00Z'',
           data_message_id = None, avatarClass = ''bg-primary'', nameClass = ''text-primary'',
           iconClass = ''fas fa-user'', username_html = ''alice'', time_html = ''12:30'',
           p_innerHTML = ''hello'', descendant_messages = 0\<rparr>"
    by (simp add: render_def messageDiv_def Let_def hello_payload_def example_browser_def
        clock_def escapeHtml_def)
  have n: "on_message_deleted mid (on_new_message example_browser hello_payload connected_page)
       = on_new_message example_browser hello_payload connected_page" if "mid \<noteq> JUndefined" for mid
    using that by (simp add: on_message_deleted_def removeMessage_def c r)
  have k: "chat_messages (on_new_message example_browser hello_payload connected_page)
      = [render example_browser hello_payload]"
    by (simp add: chat_messages_def c render_def)
  show ?thesis
    by (simp add: n k c) (simp add: v)
qed

section \<open>Presence and moderation events\<close>

lemma chatMessages_updateChatUserCount [simp]:
  "chatMessages (doc (updateChatUserCount n s)) = chatMessages (doc s)"
  by (simp add: updateChatUserCount_def split: option.splits)

lemma chatUserCount_addSystemMessage [simp]:
  "chatUserCount (doc (addSystemMessage t s)) = chatUserCount (doc s)"
  by (simp add: addSystemMessage_def split: option.splits)

lemma js_or_count [simp]: "js_or (JNum n) (JNum 0) = JNum n"
  by (simp add: js_or_def)

text \<open>
  C7: on a page that has the viewer count element and the message container, the
  handler of \<^verbatim>\<open>user_joined\<close> with a numeric \<^verbatim>\<open>user_count\<close> sets the text of the count element
  to that number and appends the system message \<^verbatim>\<open><username> joined the chat\<close> (its text
  escaped) as the last child of the container; the handler of \<^verbatim>\<open>user_left\<close> does the same
  with \<^verbatim>\<open><username> left the chat\<close>.
\<close>

theorem presence_events_update_count_and_announce:
  assumes "chatUserCount (doc s) = Some t" and "chatMessages (doc s) = Some c"
  shows "chatUserCount (doc (on_user_joined \<lparr>p_username = u, p_user_count = JNum n\<rparr> s))
           = Some (to_string (JNum n))
       \<and> chatMessages (doc (on_user_joined \<lparr>p_username = u, p_user_count = JNum n\<rparr> s))
           = Some (c @ [SystemMessage (escapeHtml (u @ '' joined the chat''))])
       \<and> chatUserCount (doc (on_user_left \<lparr>p_username = u, p_user_count = JNum n\<rparr> s))
           = Some (to_string (JNum n))
       \<and> chatMessages (doc (on_user_left \<lparr>p_username = u, p_user_count = JNum n\<rparr> s))
           = Some (c @ [SystemMessage (escapeHtml (u @ '' left the chat''))])"
  using assms
  by (simp add: on_user_joined_def on_user_left_def)
     (simp add: updateChatUserCount_def addSystemMessage_def)

lemma digits_12: "digits 12 = ''12''"
  by code_simp

theorem presence_events_update_count_and_announce_witness:
  "chatUserCount (doc connected_page) = Some ''0'' \<and> chatMessages (doc connected_page) = Some []
   \<and> chatUserCount (doc (on_user_joined \<lparr>p_username = ''bob'', p_user_count = JNum 12\<rparr>
         connected_page)) = Some ''12''
   \<and> chatMessages (doc (on_user_joined \<lparr>p_username = ''bob'', p_user_count = JNum 12\<rparr>
         connected_page)) = Some [SystemMessage ''bob joined the chat'']
   \<and> chatMessages (doc (on_user_left \<lparr>p_username = ''bob'', p_user_count = JNum 12\<rparr>
         connected_page)) = Some [SystemMessage ''bob left the chat'']"
proof -
  have a: "chatUserCount (doc connected_page) = Some ''0''"
    by (simp add: connected_page_def)
  show ?thesis
    using presence_events_update_count_and_announce [OF a chatMessages_connected_page,
        of "''bob''" 12]
    by (simp add: a chatMessages_connected_page digits_12 escapeHtml_def)
qed

text \<open>
  C8: the handler of \<^verbatim>\<open>message_blocked\<close> appends one alert of type \<^verbatim>\<open>warning\<close> whose
  message is \<^verbatim>\<open>Message blocked: \<close> followed by the reason as it came, whatever the reason
  is, and changes nothing else: the message container, the other elements and the
  globals stay as they were.
\<close>

theorem message_blocked_shows_warning:
  "alerts (doc (on_message_blocked reason s))
     = alerts (doc s) @ [\<lparr>alert_type = ''warning'', alert_message = ''Message blocked: '' @ reason\<rparr>]
   \<and> chatMessages (doc (on_message_blocked reason s)) = chatMessages (doc s)
   \<and> chatInput (doc (on_message_blocked reason s)) = chatInput (doc s)
   \<and> chatUserCount (doc (on_message_blocked reason s)) = chatUserCount (doc s)
   \<and> chatPlaceholder (doc (on_message_blocked reason s)) = chatPlaceholder (doc s)
   \<and> socket (on_message_blocked reason s) = socket s
   \<and> isConnectedToChat (on_message_blocked reason s) = isConnectedToChat s
   \<and> currentStreamId (on_message_blocked reason s) = currentStreamId s"
  by (simp add: on_message_blocked_def showAlert_def)

section \<open>Escaping\<close>












section \<open>Leaving a stream room\<close>

lemma leave_times_after_leave:
  "\<not> truthy (page_currentStreamId s) \<Longrightarrow> leave_times n s = Returns s"
  by (induction n) (simp_all add: leaveStreamRoom_def)

text \<open>Without a socket the call throws before it clears \<^verbatim>\<open>currentStreamId\<close>.\<close>

lemma leaveStreamRoom_without_socket:
  assumes "page_socket s = None" and "truthy (page_currentStreamId s)"
  shows "leaveStreamRoom s = Throws TypeError s"
  using assms by (simp add: leaveStreamRoom_def)

text \<open>
  C6: with a socket and a truthy stream id (the caller joins under
  \<^verbatim>\<open>if (window.streamId)\<close>), after \<open>joinStreamRoom\<close> any number n + 1 of calls of
  \<open>leaveStreamRoom\<close> ends in the state the first call leaves: that call emits one
  \<^verbatim>\<open>leave_stream\<close> event for the joined stream and sets \<^verbatim>\<open>currentStreamId\<close> to null, and
  every further call returns without any change. So exactly one \<^verbatim>\<open>leave_stream\<close> event
  is added to those emitted before.
\<close>

theorem leaveStreamRoom_emits_once:
  assumes "page_socket s = Some sent" and "truthy streamId"
  shows "\<exists>s1 s2. joinStreamRoom streamId random s = Returns s1
           \<and> leaveStreamRoom s1 = Returns s2
           \<and> leave_times (Suc n) s1 = Returns s2
           \<and> leaveStreamRoom s2 = Returns s2
           \<and> page_currentStreamId s2 = JNull
           \<and> leave_events s2 = leave_events s @
               [(''leave_stream'',
                 [(''stream_id'', streamId),
                  (''username'', js_or (sessionUsername s) (JStr ''Anonymous''))])]"
proof -
  let ?join = "(''join_stream'', [(''stream_id'', streamId),
      (''username'', js_or (sessionUsername s) (JStr (''Anonymous_'' @ random)))])"
  let ?leave = "(''leave_stream'', [(''stream_id'', streamId),
      (''username'', js_or (sessionUsername s) (JStr ''Anonymous''))])"
  let ?s1 = "s\<lparr>page_currentStreamId := streamId, page_socket := Some (sent @ [?join])\<rparr>"
  let ?s2 = "?s1\<lparr>page_socket := Some (sent @ [?join] @ [?leave]), page_currentStreamId := JNull\<rparr>"
  have j: "joinStreamRoom streamId random s = Returns ?s1"
    using assms(1) by (simp add: joinStreamRoom_def)
  have l: "leaveStreamRoom ?s1 = Returns ?s2"
    using assms(2) by (simp add: leaveStreamRoom_def)
  have f: "\<not> truthy (page_currentStreamId ?s2)" by simp
  have t: "leave_times (Suc n) ?s1 = Returns ?s2"
    using l leave_times_after_leave [OF f, of n] by simp
  have i: "leaveStreamRoom ?s2 = Returns ?s2"
    using leave_times_after_leave [OF f, of 1] by (simp add: leaveStreamRoom_def)
  have e: "leave_events ?s2 = leave_events s @ [?leave]"
    using assms(1) by (simp add: leave_events_def)
  show ?thesis using j l t i e by (intro exI [of _ ?s1] exI [of _ ?s2]) simp
qed

theorem leaveStreamRoom_emits_once_witness:
  "page_socket stream_page0 = Some [] \<and> truthy (JNum 42)
   \<and> (\<exists>s1 s2. joinStreamRoom (JNum 42) ''k3x9'' stream_page0 = Returns s1
         \<and> leave_times 3 s1 = Returns s2
         \<and> leave_events s2 = [(''leave_stream'',
              [(''stream_id'', JNum 42), (''username'', JStr ''bob'')])])"
proof -
  have a: "page_socket stream_page0 = Some []" by (simp add: stream_page0_def)
  have b: "truthy (JNum 42)" by simp
  have c: "leave_events stream_page0 = []" by (simp add: leave_events_def a)
  have d: "js_or (sessionUsername stream_page0) (JStr ''Anonymous'') = JStr ''bob''"
    by (simp add: stream_page0_def js_or_def)
  have n: "Suc 2 = 3" by simp
  show ?thesis
    using leaveStreamRoom_emits_once [OF a b, of "''k3x9''" 2]
    unfolding c d n by (simp only: a b) auto
qed

end
